theory Spec2Isabelle
  imports Main
begin

section \<open>The no-op platform logging class\<close>

text \<open>
  Source: \<^verbatim>\<open>Firestore/core/src/util/firebase_platform_logging_noop.h\<close>.

  The class \<^verbatim>\<open>FirebasePlatformLoggingNoOp\<close> declares no data member of its own. Its
  only state is the base-class subobject \<^verbatim>\<open>FirebasePlatformLogging\<close>, whose declaration
  lives in \<^verbatim>\<open>firebase_platform_logging.h\<close> and is not part of the sources at hand.
  The state of that subobject is therefore a type parameter \<open>'b\<close>: every result below
  holds whatever the base class stores.
\<close>

record 'b FirebasePlatformLoggingNoOp =
  base_FirebasePlatformLogging :: 'b

text \<open>
  Each member function is embedded in state-passing style: it takes the object
  (\<^verbatim>\<open>this\<close>) and returns the value of the \<^verbatim>\<open>return\<close> statement together with the
  object after the call. \<^verbatim>\<open>std::string\<close> is a \<^typ>\<open>string\<close>, the literal \<^verbatim>\<open>""\<close> is
  the empty list.
\<close>

definition IsLoggingAvailable ::
  "'b FirebasePlatformLoggingNoOp \<Rightarrow> bool \<times> 'b FirebasePlatformLoggingNoOp" where
  "IsLoggingAvailable this = (False, this)"

definition GetUserAgent ::
  "'b FirebasePlatformLoggingNoOp \<Rightarrow> string \<times> 'b FirebasePlatformLoggingNoOp" where
  "GetUserAgent this = ('''', this)"

definition GetHeartbeat ::
  "'b FirebasePlatformLoggingNoOp \<Rightarrow> string \<times> 'b FirebasePlatformLoggingNoOp" where
  "GetHeartbeat this = ('''', this)"

definition IsGmpAppIdAvailable ::
  "'b FirebasePlatformLoggingNoOp \<Rightarrow> bool \<times> 'b FirebasePlatformLoggingNoOp" where
  "IsGmpAppIdAvailable this = (False, this)"

definition GetGmpAppId ::
  "'b FirebasePlatformLoggingNoOp \<Rightarrow> string \<times> 'b FirebasePlatformLoggingNoOp" where
  "GetGmpAppId this = ('''', this)"


section \<open>Sequences of calls\<close>

text \<open>
  A client can only observe the object through its five virtual member functions.
  \<open>accessor\<close> names the member function called, \<open>result\<close> is the value it hands back
  (a \<^verbatim>\<open>bool\<close> or a \<^verbatim>\<open>std::string\<close>), \<open>invoke\<close> dispatches one call and \<open>run\<close> performs
  a list of calls from left to right on the same object, each call starting from the
  object the previous one left behind.
\<close>

datatype accessor =
  Call_IsLoggingAvailable
  | Call_GetUserAgent
  | Call_GetHeartbeat
  | Call_IsGmpAppIdAvailable
  | Call_GetGmpAppId

datatype result = Bool_result bool | String_result string

fun invoke ::
  "accessor \<Rightarrow> 'b FirebasePlatformLoggingNoOp \<Rightarrow> result \<times> 'b FirebasePlatformLoggingNoOp" where
  "invoke Call_IsLoggingAvailable this =
     (case IsLoggingAvailable this of (r, this') \<Rightarrow> (Bool_result r, this'))"
| "invoke Call_GetUserAgent this =
     (case GetUserAgent this of (r, this') \<Rightarrow> (String_result r, this'))"
| "invoke Call_GetHeartbeat this =
     (case GetHeartbeat this of (r, this') \<Rightarrow> (String_result r, this'))"
| "invoke Call_IsGmpAppIdAvailable this =
     (case IsGmpAppIdAvailable this of (r, this') \<Rightarrow> (Bool_result r, this'))"
| "invoke Call_GetGmpAppId this =
     (case GetGmpAppId this of (r, this') \<Rightarrow> (String_result r, this'))"

fun run ::
  "accessor list \<Rightarrow> 'b FirebasePlatformLoggingNoOp
     \<Rightarrow> result list \<times> 'b FirebasePlatformLoggingNoOp" where
  "run [] this = ([], this)"
| "run (c # cs) this =
     (case invoke c this of (r, this') \<Rightarrow>
        (case run cs this' of (rs, this'') \<Rightarrow> (r # rs, this'')))"


section \<open>The factory\<close>

text \<open>
  Modelled from the spec: the body of \<^verbatim>\<open>CreateNoOpFirebasePlatformLogging\<close>. The header
  only declares it, with return type
  \<^verbatim>\<open>std::unique_ptr<FirebasePlatformLoggingNoOp>\<close>; the definition is in a source file
  that is not at hand. The specification says that it takes no parameter, "allocates and
  returns a new instance", that "the caller receives exclusive ownership", and that
  allocation failure "is the only error condition".

  The free store is the list of the objects allocated so far, an address is an index
  into it, and \<open>capacity\<close> bounds how many objects fit: the store is exhausted once the
  list has that length. A \<^verbatim>\<open>std::unique_ptr\<close> is either \<^verbatim>\<open>nullptr\<close> or owns the object at
  an address. Exhaustion is the error \<open>bad_alloc\<close>, returned on the left of a sum. The
  value \<open>b\<close> is the default-constructed base-class subobject.
\<close>

datatype alloc_error = bad_alloc

datatype unique_ptr = nullptr | owner nat

record 'b free_store =
  objects :: "'b FirebasePlatformLoggingNoOp list"
  capacity :: nat

definition allocated :: "'b free_store \<Rightarrow> nat \<Rightarrow> bool" where
  "allocated s p = (p < length (objects s))"

definition CreateNoOpFirebasePlatformLogging ::
  "'b \<Rightarrow> 'b free_store \<Rightarrow> alloc_error + (unique_ptr \<times> 'b free_store)" where
  "CreateNoOpFirebasePlatformLogging b s =
     (if length (objects s) < capacity s
      then Inr (owner (length (objects s)),
                s\<lparr>objects := objects s @ [\<lparr>base_FirebasePlatformLogging = b\<rparr>]\<rparr>)
      else Inl bad_alloc)"


section \<open>The fixed answers\<close>

text \<open>
  C1. For every instance \<open>x\<close> of the class, \<^verbatim>\<open>x.IsLoggingAvailable()\<close> returns
  \<^verbatim>\<open>false\<close>.
\<close>

theorem IsLoggingAvailable_false: "fst (IsLoggingAvailable x) = False"
  by (simp add: IsLoggingAvailable_def)

text \<open>
  C2. For every instance \<open>x\<close> of the class, \<^verbatim>\<open>x.GetUserAgent()\<close> returns the empty
  string.
\<close>

theorem GetUserAgent_empty: "fst (GetUserAgent x) = ''''"
  by (simp add: GetUserAgent_def)

text \<open>
  C3. For every instance \<open>x\<close> of the class, \<^verbatim>\<open>x.GetHeartbeat()\<close> returns the empty
  string.
\<close>

theorem GetHeartbeat_empty: "fst (GetHeartbeat x) = ''''"
  by (simp add: GetHeartbeat_def)

text \<open>
  C4. For every instance \<open>x\<close> of the class, \<^verbatim>\<open>x.IsGmpAppIdAvailable()\<close> returns
  \<^verbatim>\<open>false\<close>.
\<close>

theorem IsGmpAppIdAvailable_false: "fst (IsGmpAppIdAvailable x) = False"
  by (simp add: IsGmpAppIdAvailable_def)

text \<open>
  C5. For every instance \<open>x\<close> of the class, \<^verbatim>\<open>x.GetGmpAppId()\<close> returns the empty
  string.
\<close>

theorem GetGmpAppId_empty: "fst (GetGmpAppId x) = ''''"
  by (simp add: GetGmpAppId_def)


section \<open>No state, no drift\<close>

text \<open>
  C7. Every call to any of the five accessors leaves the object exactly as it was: the
  object after the call is the object before the call, whatever the base class stores.
\<close>

theorem accessors_leave_object_unchanged:
  "snd (IsLoggingAvailable x) = x \<and>
   snd (GetUserAgent x) = x \<and>
   snd (GetHeartbeat x) = x \<and>
   snd (IsGmpAppIdAvailable x) = x \<and>
   snd (GetGmpAppId x) = x"
  by (simp add: IsLoggingAvailable_def GetUserAgent_def GetHeartbeat_def
      IsGmpAppIdAvailable_def GetGmpAppId_def)

text \<open>
  Two facts about dispatch and sequencing, used below: a dispatched call hands the
  object back untouched, and a sequence of calls answers each call as a lone call on the
  initial object would.
\<close>

lemma invoke_keeps_object: "invoke c x = (fst (invoke c x), x)"
  by (cases c)
    (simp_all add: IsLoggingAvailable_def GetUserAgent_def GetHeartbeat_def
      IsGmpAppIdAvailable_def GetGmpAppId_def)

lemma run_pointwise: "run cs x = (map (\<lambda>c. fst (invoke c x)) cs, x)"
proof (induction cs)
  case Nil
  show ?case by simp
next
  case (Cons c cs)
  have "invoke c x = (fst (invoke c x), x)"
    by (rule invoke_keeps_object)
  then obtain r where step: "invoke c x = (r, x)" ..
  from step Cons.IH show ?case by simp
qed

text \<open>
  C6. Take any finite sequence \<open>cs\<close> of calls to the five accessors on one object \<open>x\<close>,
  in any order and with any repetitions. Whenever two positions \<open>i\<close> and \<open>j\<close> of the
  sequence call the same accessor, the two calls return the same result.
\<close>

theorem same_accessor_same_result:
  assumes "i < length cs" and "j < length cs" and "cs ! i = cs ! j"
  shows "fst (run cs x) ! i = fst (run cs x) ! j"
proof -
  have "fst (run cs x) = map (\<lambda>c. fst (invoke c x)) cs"
    by (simp add: run_pointwise)
  with assms show ?thesis by simp
qed

theorem same_accessor_same_result_witness:
  "(0::nat) < length [Call_GetUserAgent, Call_IsLoggingAvailable, Call_GetUserAgent] \<and>
   (2::nat) < length [Call_GetUserAgent, Call_IsLoggingAvailable, Call_GetUserAgent] \<and>
   [Call_GetUserAgent, Call_IsLoggingAvailable, Call_GetUserAgent] ! 0 =
     [Call_GetUserAgent, Call_IsLoggingAvailable, Call_GetUserAgent] ! 2 \<and>
   fst (run [Call_GetUserAgent, Call_IsLoggingAvailable, Call_GetUserAgent]
          \<lparr>base_FirebasePlatformLogging = ()\<rparr>) ! 0 =
   fst (run [Call_GetUserAgent, Call_IsLoggingAvailable, Call_GetUserAgent]
          \<lparr>base_FirebasePlatformLogging = ()\<rparr>) ! 2"
  using same_accessor_same_result
    [of 0 "[Call_GetUserAgent, Call_IsLoggingAvailable, Call_GetUserAgent]" 2
        "\<lparr>base_FirebasePlatformLogging = ()\<rparr>"]
  by simp

text \<open>
  C10. The availability flags agree with the identifiers: \<^verbatim>\<open>IsLoggingAvailable()\<close> is
  \<^verbatim>\<open>false\<close> exactly when \<^verbatim>\<open>GetUserAgent()\<close> and \<^verbatim>\<open>GetHeartbeat()\<close> are both empty, and
  \<^verbatim>\<open>IsGmpAppIdAvailable()\<close> is \<^verbatim>\<open>false\<close> exactly when \<^verbatim>\<open>GetGmpAppId()\<close> is empty.
\<close>

theorem flags_agree_with_identifiers:
  "(fst (IsLoggingAvailable x) = False) =
     (fst (GetUserAgent x) = '''' \<and> fst (GetHeartbeat x) = '''') \<and>
   (fst (IsGmpAppIdAvailable x) = False) = (fst (GetGmpAppId x) = '''')"
  by (simp add: IsLoggingAvailable_def GetUserAgent_def GetHeartbeat_def
      IsGmpAppIdAvailable_def GetGmpAppId_def)


section \<open>The factory returns a fresh object\<close>

text \<open>
  C8. While the free store is not exhausted, \<^verbatim>\<open>CreateNoOpFirebasePlatformLogging()\<close>
  does not fail and does not return \<^verbatim>\<open>nullptr\<close>: it returns a handle that owns an
  address \<open>p\<close>. That address was not allocated before the call, so no handle that existed
  before can refer to it; after the call it holds a newly constructed
  \<^verbatim>\<open>FirebasePlatformLoggingNoOp\<close>, and the objects allocated earlier are as they were.
\<close>

theorem factory_returns_fresh_object:
  assumes "length (objects s) < capacity s"
  shows "\<exists>p s'. CreateNoOpFirebasePlatformLogging b s = Inr (owner p, s') \<and>
           owner p \<noteq> nullptr \<and>
           \<not> allocated s p \<and> allocated s' p \<and>
           objects s' ! p = \<lparr>base_FirebasePlatformLogging = b\<rparr> \<and>
           take (length (objects s)) (objects s') = objects s"
  using assms by (simp add: CreateNoOpFirebasePlatformLogging_def allocated_def)

theorem factory_returns_fresh_object_witness:
  "length (objects (\<lparr>objects = [], capacity = 1\<rparr> :: nat free_store))
     < capacity (\<lparr>objects = [], capacity = 1\<rparr> :: nat free_store) \<and>
   (\<exists>p s'. CreateNoOpFirebasePlatformLogging (0::nat)
              (\<lparr>objects = [], capacity = 1\<rparr> :: nat free_store) = Inr (owner p, s') \<and>
           owner p \<noteq> nullptr \<and>
           \<not> allocated (\<lparr>objects = [], capacity = 1\<rparr> :: nat free_store) p \<and>
           allocated s' p \<and>
           objects s' ! p = \<lparr>base_FirebasePlatformLogging = 0\<rparr> \<and>
           take (length (objects (\<lparr>objects = [], capacity = 1\<rparr> :: nat free_store)))
             (objects s') = objects (\<lparr>objects = [], capacity = 1\<rparr> :: nat free_store))"
  using factory_returns_fresh_object
    [of "\<lparr>objects = [], capacity = 1\<rparr> :: nat free_store" "0::nat"]
  by simp

end
